theory Spec2Isabelle
  imports Complex_Main "HOL-Library.Sublist"
begin

section \<open>Python values and strings\<close>

text \<open>
  The workflow is Python: integers are unbounded (\<open>int\<close>), strings are character lists.
  The string helpers below cover ASCII, which is what the keywords, node names and
  messages of the sources are made of; a character outside ASCII is left as it is by
  \<open>lower\<close>.
\<close>

definition lower_char :: "char \<Rightarrow> char" where
  "lower_char c =
     (case map_of (zip ''ABCDEFGHIJKLMNOPQRSTUVWXYZ'' ''abcdefghijklmnopqrstuvwxyz'') c of
        None \<Rightarrow> c
      | Some d \<Rightarrow> d)"

text \<open>\<^verbatim>\<open>str.lower()\<close>\<close>

definition lower :: "string \<Rightarrow> string" where
  "lower s = map lower_char s"

text \<open>The characters \<^verbatim>\<open>str.strip()\<close> removes: ASCII white space.\<close>

definition is_space :: "char \<Rightarrow> bool" where
  "is_space c = ((of_char c :: nat) \<in> {9, 10, 11, 12, 13, 28, 29, 30, 31, 32})"

definition strip :: "string \<Rightarrow> string" where
  "strip s = rev (dropWhile is_space (rev (dropWhile is_space s)))"

definition digit_char :: "nat \<Rightarrow> char" where
  "digit_char d = ''0123456789'' ! d"

fun digits :: "nat \<Rightarrow> string" where
  "digits n = (if n < 10 then [digit_char n] else digits (n div 10) @ [digit_char (n mod 10)])"

declare digits.simps [simp del]

text \<open>\<^verbatim>\<open>str(i)\<close> and \<^verbatim>\<open>f"{i}"\<close> for an integer.\<close>

definition str_int :: "int \<Rightarrow> string" where
  "str_int i = (if i < 0 then CHR ''-'' # digits (nat (- i)) else digits (nat i))"

fun group3 :: "string \<Rightarrow> string" where
  "group3 (a # b # c # d # rest) = a # b # c # CHR '','' # group3 (d # rest)"
| "group3 ds = ds"

text \<open>\<^verbatim>\<open>f"{i:,}"\<close>: the decimal digits in groups of three, from the right.\<close>

definition format_commas :: "int \<Rightarrow> string" where
  "format_commas i =
     (let body = rev (group3 (rev (digits (nat \<bar>i\<bar>))))
      in if i < 0 then CHR ''-'' # body else body)"

text \<open>The rupee sign of the reason texts, as its three UTF-8 bytes.\<close>

definition rupee :: string where
  "rupee = [CHR 0xE2, CHR 0x82, CHR 0xB9]"

fun starts_with :: "string \<Rightarrow> string \<Rightarrow> bool" where
  "starts_with s [] = True"
| "starts_with [] (p # ps) = False"
| "starts_with (c # cs) (p # ps) = (c = p \<and> starts_with cs ps)"

text \<open>\<^verbatim>\<open>needle in haystack\<close> on strings.\<close>

fun contains :: "string \<Rightarrow> string \<Rightarrow> bool" where
  "contains [] needle = (needle = [])"
| "contains (c # cs) needle = (starts_with (c # cs) needle \<or> contains cs needle)"

text \<open>
  \<^verbatim>\<open>xs[:n]\<close>: the first \<open>n\<close> elements, and for a negative \<open>n\<close> all but the last
  \<open>-n\<close>.
\<close>

definition py_slice_to :: "int \<Rightarrow> 'a list \<Rightarrow> 'a list" where
  "py_slice_to n xs =
     (if 0 \<le> n then take (nat n) xs else take (length xs - nat (- n)) xs)"

text \<open>
  \<^verbatim>\<open>xs.sort(key=k, reverse=True)\<close>: descending by key, stable (records with equal
  keys keep their order).
\<close>

definition sort_desc :: "('a \<Rightarrow> 'k::{linorder, uminus}) \<Rightarrow> 'a list \<Rightarrow> 'a list" where
  "sort_desc k xs = sort_key (\<lambda>x. - k x) xs"

text \<open>Exceptions a stage or a tool can raise, and \<^verbatim>\<open>str(e)\<close>.\<close>

datatype exn = KeyError string | ValueError string | Exception string

fun str_exn :: "exn \<Rightarrow> string" where
  "str_exn (KeyError k) = [CHR 0x27] @ k @ [CHR 0x27]"
| "str_exn (ValueError m) = m"
| "str_exn (Exception m) = m"

section \<open>RFP records and qualification (\<^verbatim>\<open>sales_agent/tools.py\<close>)\<close>

text \<open>
  The result of \<^verbatim>\<open>qualify_rfp_tool\<close>: the dictionary with the keys
  \<^verbatim>\<open>rfp_id\<close>, \<^verbatim>\<open>qualified\<close> (here \<open>qualified_flag\<close>), \<^verbatim>\<open>score\<close>, \<^verbatim>\<open>reasons\<close>.
\<close>

record qualification =
  q_rfp_id :: string
  qualified_flag :: bool
  score :: int
  reasons :: "string list"

text \<open>
  An RFP is a dictionary. The record has one field for each key the sources read or
  write; \<open>None\<close> is a key that is absent, and a key that is present holds a value of
  the type the scanner's data gives it (\<open>id_key\<close> is the key \<^verbatim>\<open>id\<close>, \<open>value_key\<close> the key
  \<^verbatim>\<open>value\<close>).
\<close>

record rfp =
  id_key :: "string option"
  rfp_id :: "string option"
  title :: "string option"
  description :: "string option"
  category :: "string option"
  client :: "string option"
  location :: "string option"
  due_date :: "string option"
  submission_deadline :: "string option"
  days_remaining :: "int option"
  tender_value :: "int option"
  estimated_value :: "int option"
  value_key :: "int option"
  priority_score :: "int option"
  qualification :: "qualification option"

definition empty_rfp :: rfp where
  "empty_rfp = \<lparr>id_key = None, rfp_id = None, title = None, description = None,
     category = None, client = None, location = None, due_date = None,
     submission_deadline = None, days_remaining = None, tender_value = None,
     estimated_value = None, value_key = None, priority_score = None, qualification = None\<rparr>"

text \<open>The criteria dictionary; \<open>None\<close> is an absent key.\<close>

record criteria =
  min_tender_value :: "int option"
  min_days_remaining :: "int option"
  preferred_locations :: "string list option"

text \<open>\<^verbatim>\<open>d.get(key, default)\<close> on a key of the record.\<close>

definition get_or :: "'a option \<Rightarrow> 'a \<Rightarrow> 'a" where
  "get_or v d = (case v of None \<Rightarrow> d | Some x \<Rightarrow> x)"

text \<open>\<^verbatim>\<open>str(d.get(key))\<close> on a string key: an absent key prints as \<^verbatim>\<open>None\<close>.\<close>

definition str_opt :: "string option \<Rightarrow> string" where
  "str_opt v = get_or v ''None''"

text \<open>
  \<^verbatim>\<open>qualify_rfp_tool(rfp, criteria)\<close> updates the dictionary \<^verbatim>\<open>qualification\<close> in three
  blocks, written here one function each. The timeline block: below the minimum number
  of days it clears \<^verbatim>\<open>qualified\<close> and adds no points.
\<close>

definition timeline_block :: "rfp \<Rightarrow> criteria \<Rightarrow> qualification \<Rightarrow> qualification" where
  "timeline_block r c q =
     (let days = get_or (days_remaining r) 0;
          min_days = get_or (min_days_remaining c) 7
      in if days < min_days then
           q\<lparr>qualified_flag := False,
             reasons := reasons q @
               [''Insufficient time: '' @ str_int days @ '' days (need '' @
                str_int min_days @ ''+)'']\<rparr>
         else if days < 14 then
           q\<lparr>score := score q + 15,
             reasons := reasons q @ [''Tight timeline: '' @ str_int days @ '' days'']\<rparr>
         else if days < 30 then
           q\<lparr>score := score q + 25,
             reasons := reasons q @ [''Adequate time: '' @ str_int days @ '' days'']\<rparr>
         else
           q\<lparr>score := score q + 30,
             reasons := reasons q @ [''Good timeline: '' @ str_int days @ '' days'']\<rparr>)"

text \<open>The tender value block (\<^verbatim>\<open>int(rfp.get('tender_value', 0))\<close>).\<close>

definition value_block :: "rfp \<Rightarrow> criteria \<Rightarrow> qualification \<Rightarrow> qualification" where
  "value_block r c q =
     (let tender = get_or (tender_value r) 0;
          min_value = get_or (min_tender_value c) 1000000
      in if tender < min_value then
           q\<lparr>score := score q + 10,
             reasons := reasons q @ [''Low value: '' @ rupee @ format_commas tender]\<rparr>
         else if tender < min_value * 2 then
           q\<lparr>score := score q + 25,
             reasons := reasons q @ [''Meets minimum: '' @ rupee @ format_commas tender]\<rparr>
         else if tender < min_value * 5 then
           q\<lparr>score := score q + 35,
             reasons := reasons q @ [''Good value: '' @ rupee @ format_commas tender]\<rparr>
         else
           q\<lparr>score := score q + 40,
             reasons := reasons q @ [''High value: '' @ rupee @ format_commas tender]\<rparr>)"

text \<open>
  \<^verbatim>\<open>any(loc.lower() in str(rfp.get('location', '')).lower() for loc in preferred_locations)\<close>
\<close>

definition location_match :: "rfp \<Rightarrow> string list \<Rightarrow> bool" where
  "location_match r preferred =
     list_ex (\<lambda>loc. contains (lower (get_or (location r) [])) (lower loc)) preferred"

text \<open>The location block.\<close>

definition location_block :: "rfp \<Rightarrow> criteria \<Rightarrow> qualification \<Rightarrow> qualification" where
  "location_block r c q =
     (let preferred = get_or (preferred_locations c) []
      in if preferred = [] then
           q\<lparr>score := score q + 30,
             reasons := reasons q @ [''Location: '' @ get_or (location r) ''N/A'']\<rparr>
         else if location_match r preferred then
           q\<lparr>score := score q + 30,
             reasons := reasons q @ [''Preferred location: '' @ str_opt (location r)]\<rparr>
         else
           q\<lparr>score := score q + 10,
             reasons := reasons q @ [''Non-preferred location: '' @ str_opt (location r)]\<rparr>)"

text \<open>
  The tool: \<^verbatim>\<open>rfp['rfp_id']\<close> raises \<^verbatim>\<open>KeyError\<close> on a record without the key; the
  blocks run in the order timeline, value, location; the last assignment sets
  \<^verbatim>\<open>qualified\<close> from the score.
\<close>

definition qualify_rfp_tool :: "rfp \<Rightarrow> criteria \<Rightarrow> exn + qualification" where
  "qualify_rfp_tool r c =
     (case rfp_id r of
        None \<Rightarrow> Inl (KeyError ''rfp_id'')
      | Some rid \<Rightarrow>
          let q0 = \<lparr>q_rfp_id = rid, qualified_flag = True, score = 0, reasons = []\<rparr>;
              q3 = location_block r c (value_block r c (timeline_block r c q0))
          in Inr (q3\<lparr>qualified_flag := (60 \<le> score q3)\<rparr>))"

text \<open>
  The points each block adds, named for the statement of the scoring claim: the timeline
  block adds nothing below the minimum number of days.
\<close>

definition timeline_points :: "rfp \<Rightarrow> criteria \<Rightarrow> int" where
  "timeline_points r c =
     (let days = get_or (days_remaining r) 0
      in if days < get_or (min_days_remaining c) 7 then 0
         else if days < 14 then 15 else if days < 30 then 25 else 30)"

definition value_points :: "rfp \<Rightarrow> criteria \<Rightarrow> int" where
  "value_points r c =
     (let tender = get_or (tender_value r) 0; min_value = get_or (min_tender_value c) 1000000
      in if tender < min_value then 10
         else if tender < min_value * 2 then 25
         else if tender < min_value * 5 then 35 else 40)"

definition location_points :: "rfp \<Rightarrow> criteria \<Rightarrow> int" where
  "location_points r c =
     (let preferred = get_or (preferred_locations c) []
      in if preferred = [] then 30
         else if location_match r preferred then 30 else 10)"

definition insufficient_time_reason :: "rfp \<Rightarrow> criteria \<Rightarrow> string" where
  "insufficient_time_reason r c =
     ''Insufficient time: '' @ str_int (get_or (days_remaining r) 0) @ '' days (need '' @
     str_int (get_or (min_days_remaining c) 7) @ ''+)''"

text \<open>
  The record of the statement's example: three days left, a tender of ten million, and
  the criteria \<^verbatim>\<open>sales_agent_node\<close> passes.
\<close>

definition late_rfp :: rfp where
  "late_rfp = empty_rfp\<lparr>rfp_id := Some ''RFP-7'', days_remaining := Some 3,
     tender_value := Some 10000000, location := Some ''Mumbai''\<rparr>"

definition sales_criteria :: criteria where
  "sales_criteria = \<lparr>min_tender_value = Some 1000000, min_days_remaining = Some 7,
     preferred_locations = Some []\<rparr>"

text \<open>
  \<^verbatim>\<open>prioritize_rfps_tool(rfps, qualifications, top_n)\<close>. The lookup dictionary keeps,
  for an id that occurs twice, the later qualification. \<^verbatim>\<open>rfp['rfp_id']\<close> raises
  \<^verbatim>\<open>KeyError\<close> on a record without the key.
\<close>

definition qual_lookup :: "qualification list \<Rightarrow> string \<Rightarrow> qualification option" where
  "qual_lookup qualifications = map_of (rev (map (\<lambda>q. (q_rfp_id q, q)) qualifications))"

fun scored_rfps :: "(string \<Rightarrow> qualification option) \<Rightarrow> rfp list \<Rightarrow> exn + rfp list" where
  "scored_rfps lookup [] = Inr []"
| "scored_rfps lookup (r # rs) =
     (case rfp_id r of
        None \<Rightarrow> Inl (KeyError ''rfp_id'')
      | Some rid \<Rightarrow>
          (case scored_rfps lookup rs of
             Inl e \<Rightarrow> Inl e
           | Inr rest \<Rightarrow>
               (case lookup rid of
                  None \<Rightarrow> Inr rest
                | Some qual \<Rightarrow>
                    if qualified_flag qual then
                      Inr (r\<lparr>priority_score := Some (score qual),
                              qualification := Some qual\<rparr> # rest)
                    else Inr rest)))"

definition prioritize_rfps_tool ::
  "rfp list \<Rightarrow> qualification list \<Rightarrow> int \<Rightarrow> exn + rfp list" where
  "prioritize_rfps_tool rfps qualifications top_n =
     (case scored_rfps (qual_lookup qualifications) rfps of
        Inl e \<Rightarrow> Inl e
      | Inr scored \<Rightarrow>
          Inr (py_slice_to top_n (sort_desc (\<lambda>x. get_or (priority_score x) 0) scored)))"

section \<open>Catalog matching (\<^verbatim>\<open>technical_agent/tools.py\<close>)\<close>

text \<open>
  The values of a specification or requirement dictionary: \<^verbatim>\<open>None\<close>, an integer (the
  number of cores) or a string; numbers with a fraction are left out. A dictionary is a
  list of key and value pairs in the order of insertion, read with \<open>map_of\<close>.
\<close>

datatype pyval = VNone | VInt int | VStr string

type_synonym pydict = "(string \<times> pyval) list"

text \<open>\<^verbatim>\<open>d.get(key)\<close>\<close>

definition dict_get :: "pydict \<Rightarrow> string \<Rightarrow> pyval" where
  "dict_get d k = (case map_of d k of None \<Rightarrow> VNone | Some v \<Rightarrow> v)"

text \<open>The truth of a value in a condition: \<^verbatim>\<open>None\<close>, \<^verbatim>\<open>0\<close> and \<^verbatim>\<open>''\<close> are false.\<close>

fun truthy :: "pyval \<Rightarrow> bool" where
  "truthy VNone = False"
| "truthy (VInt i) = (i \<noteq> 0)"
| "truthy (VStr s) = (s \<noteq> [])"

definition SPEC_FIELDS :: "string list" where
  "SPEC_FIELDS = [''voltage_rating'', ''conductor'', ''size'', ''cores'', ''insulation'',
     ''armour'', ''cable_type'', ''application'']"

fun normalize_value :: "pyval \<Rightarrow> string option" where
  "normalize_value VNone = None"
| "normalize_value (VInt i) = Some (str_int i)"
| "normalize_value (VStr s) = Some (lower (strip s))"

definition derive_product_field :: "pydict \<Rightarrow> string \<Rightarrow> pyval" where
  "derive_product_field specs field =
     (if map_of specs field \<noteq> None then dict_get specs field
      else if field = ''cable_type'' then dict_get specs ''insulation''
      else VNone)"

text \<open>
  A catalog product: \<^verbatim>\<open>product.get(key)\<close> is \<open>VNone\<close> for an absent key, and
  \<^verbatim>\<open>product.get("specifications", {})\<close> is the empty dictionary.
\<close>

record catalog_product =
  sku :: pyval
  product_name :: pyval
  price_per_km :: pyval
  specifications :: pydict

text \<open>One entry of \<^verbatim>\<open>comparisons\<close>.\<close>

record comparison_entry =
  field :: string
  requirement :: pyval
  product :: pyval
  is_match :: bool

text \<open>The dictionary \<^verbatim>\<open>score_catalog_product\<close> returns: the product's keys and three more.\<close>

record scored_product = catalog_product +
  match_score :: rat
  matched_fields :: pydict
  comparison :: "comparison_entry list"

text \<open>
  \<^verbatim>\<open>is_match = normalize_value(req_value) == normalize_value(spec_value) if req_value else False\<close>
\<close>

definition field_matches :: "pydict \<Rightarrow> pydict \<Rightarrow> string \<Rightarrow> bool" where
  "field_matches specs requirements f =
     (let req_value = dict_get requirements f;
          spec_value = derive_product_field specs f
      in if truthy req_value then normalize_value req_value = normalize_value spec_value
         else False)"

text \<open>\<^verbatim>\<open>matched[field] = spec_value\<close>\<close>

definition dict_set :: "pydict \<Rightarrow> string \<Rightarrow> pyval \<Rightarrow> pydict" where
  "dict_set d k v =
     (if map_of d k = None then d @ [(k, v)]
      else map (\<lambda>(k', v'). if k' = k then (k', v) else (k', v')) d)"

text \<open>
  The loop over \<^verbatim>\<open>SPEC_FIELDS\<close>, on the three variables \<^verbatim>\<open>score\<close>, \<^verbatim>\<open>matched\<close>,
  \<^verbatim>\<open>comparisons\<close>.
\<close>

fun score_fields ::
  "pydict \<Rightarrow> pydict \<Rightarrow> string list \<Rightarrow> int \<times> pydict \<times> comparison_entry list
     \<Rightarrow> int \<times> pydict \<times> comparison_entry list" where
  "score_fields specs requirements [] acc = acc"
| "score_fields specs requirements (f # fs) (sc, matched, comparisons) =
     (let req_value = dict_get requirements f;
          spec_value = derive_product_field specs f;
          m = field_matches specs requirements f;
          entry = \<lparr>field = f, requirement = req_value, product = spec_value, is_match = m\<rparr>
      in score_fields specs requirements fs
           (if m then (sc + 1, dict_set matched f spec_value, comparisons @ [entry])
            else (sc, matched, comparisons @ [entry])))"

text \<open>
  \<^verbatim>\<open>round(x, 1)\<close>: to one decimal place, a tie to the even neighbour. The percentage
  is \<^verbatim>\<open>(score / 8) * 100\<close>, a multiple of 12.5 that floating point holds exactly, so the
  rationals give the value the program computes.
\<close>

definition py_round1 :: "rat \<Rightarrow> rat" where
  "py_round1 x =
     (let y = x * 10; f = \<lfloor>y\<rfloor>; r = y - of_int f
      in of_int (if r < 1 / 2 then f else if 1 / 2 < r then f + 1
                 else if even f then f else f + 1) / 10)"

definition score_catalog_product :: "catalog_product \<Rightarrow> pydict \<Rightarrow> scored_product" where
  "score_catalog_product p requirements =
     (let specs = specifications p;
          (sc, matched, comparisons) = score_fields specs requirements SPEC_FIELDS (0, [], []);
          match_percent = py_round1 (of_int sc / of_nat (length SPEC_FIELDS) * 100)
      in \<lparr>sku = sku p, product_name = product_name p, price_per_km = price_per_km p,
           specifications = specs, match_score = match_percent, matched_fields = matched,
           comparison = comparisons\<rparr>)"

definition match_oem_products ::
  "catalog_product list \<Rightarrow> pydict \<Rightarrow> int \<Rightarrow> scored_product list" where
  "match_oem_products catalog requirements top_n =
     py_slice_to top_n
       (sort_desc match_score (map (\<lambda>p. score_catalog_product p requirements) catalog))"

text \<open>The number of fields of \<^verbatim>\<open>SPEC_FIELDS\<close> on which a product meets the requirements.\<close>

definition matching_fields :: "catalog_product \<Rightarrow> pydict \<Rightarrow> nat" where
  "matching_fields p requirements =
     length (filter (field_matches (specifications p) requirements) SPEC_FIELDS)"

text \<open>
  \<^verbatim>\<open>build_comparison_table(recommendations)\<close>: one row for each field, keyed by the
  products' \<^verbatim>\<open>sku\<close>, which every scored product has (\<^verbatim>\<open>a or b\<close> is \<open>b\<close> when \<open>a\<close> is
  false in a condition).
\<close>

definition py_or :: "pyval \<Rightarrow> pyval \<Rightarrow> pyval" where
  "py_or a b = (if truthy a then a else b)"

definition row_set :: "(pyval \<times> pyval) list \<Rightarrow> pyval \<Rightarrow> pyval \<Rightarrow> (pyval \<times> pyval) list" where
  "row_set d k v =
     (if map_of d k = None then d @ [(k, v)]
      else map (\<lambda>(k', v'). if k' = k then (k', v) else (k', v')) d)"

definition build_comparison_table :: "scored_product list \<Rightarrow> (pyval \<times> pyval) list list" where
  "build_comparison_table recommendations =
     map (\<lambda>f. foldl (\<lambda>row p. row_set row (sku p)
                  (py_or (dict_get (specifications p) f)
                         (derive_product_field (specifications p) f)))
               [(VStr ''field'', VStr f)] recommendations)
       SPEC_FIELDS"

text \<open>A catalog of two cables and the requirements of a tender, for the examples.\<close>

definition cable_a :: catalog_product where
  "cable_a = \<lparr>sku = VStr ''CAB-A'', product_name = VStr ''XLPE 3C'', price_per_km = VInt 410000,
     specifications = [(''voltage_rating'', VStr ''11 kV''), (''conductor'', VStr ''Copper''),
       (''insulation'', VStr ''XLPE''), (''cores'', VInt 3)]\<rparr>"

definition cable_b :: catalog_product where
  "cable_b = \<lparr>sku = VStr ''CAB-B'', product_name = VStr ''AL 1C'', price_per_km = VInt 120000,
     specifications = [(''voltage_rating'', VStr ''11 kV''), (''conductor'', VStr ''Aluminum'')]\<rparr>"

definition tender_requirements :: pydict where
  "tender_requirements = [(''voltage_rating'', VStr ''11 kV''), (''conductor'', VStr ''Copper''),
     (''size'', VNone), (''cores'', VInt 3), (''insulation'', VStr ''XLPE''), (''armour'', VNone),
     (''cable_type'', VStr ''XLPE''), (''application'', VNone)]"

section \<open>The workflow state (\<^verbatim>\<open>state.py\<close>)\<close>

datatype message = HumanMessage string | AIMessage string | SystemMessage string

text \<open>The dictionary the assessment stage stores under \<^verbatim>\<open>technical_analysis\<close>.\<close>

record tech_analysis =
  ta_rfp_id :: "string option"
  analysis :: string
  requirements :: pydict
  recommended_products :: "scored_product list"
  comparison_table :: "(pyval \<times> pyval) list list"

text \<open>
  \<^verbatim>\<open>AgentState\<close>, with every key \<^verbatim>\<open>create_initial_state\<close> writes. \<open>next_node = None\<close> is
  a state without the key (or holding \<^verbatim>\<open>None\<close>), which the routers read with a default.
\<close>

record AgentState =
  messages :: "message list"
  current_step :: string
  next_node :: "string option"
  rfps_identified :: "rfp list"
  selected_rfp :: "rfp option"
  user_selected_rfp_id :: "string option"
  technical_analysis :: "tech_analysis option"
  pricing_analysis :: "pydict option"
  final_response :: "string option"
  report_path :: "string option"
  report_url :: "string option"
  product_summary :: "string option"
  test_summary :: "string option"
  waiting_for_user :: bool
  user_prompt :: "string option"
  agent_reasoning :: "pydict list"
  tool_calls_made :: "pydict list"
  session_id :: string
  error :: "string option"

text \<open>\<^verbatim>\<open>class WorkflowStep\<close>\<close>

definition IDLE :: string where "IDLE = ''IDLE''"
definition SCANNING :: string where "SCANNING = ''SCANNING''"
definition WAITING_USER :: string where "WAITING_USER = ''WAITING_USER''"
definition ANALYZING :: string where "ANALYZING = ''ANALYZING''"
definition PRICING :: string where "PRICING = ''PRICING''"
definition COMPLETE :: string where "COMPLETE = ''COMPLETE''"
definition ERROR :: string where "ERROR = ''ERROR''"

text \<open>
  \<^verbatim>\<open>class NodeName\<close>. \<^verbatim>\<open>NodeName.END\<close> is the string \<^verbatim>\<open>"END"\<close>; the constant \<^verbatim>\<open>END\<close> that
  \<^verbatim>\<open>graph.py\<close> imports from the graph library is another string, the library's name of
  the end of a run.
\<close>

definition MAIN_AGENT :: string where "MAIN_AGENT = ''main_agent''"
definition SALES_AGENT :: string where "SALES_AGENT = ''sales_agent''"
definition TECHNICAL_AGENT :: string where "TECHNICAL_AGENT = ''technical_agent''"
definition PRICING_AGENT :: string where "PRICING_AGENT = ''pricing_agent''"
definition WAIT_FOR_USER :: string where "WAIT_FOR_USER = ''wait_for_user''"
definition NodeName_END :: string where "NodeName_END = ''END''"

definition END :: string where "END = ''__end__''"

definition create_initial_state :: "string \<Rightarrow> string \<Rightarrow> AgentState" where
  "create_initial_state sid user_message =
     \<lparr>messages = [HumanMessage user_message], current_step = IDLE,
      next_node = Some MAIN_AGENT, rfps_identified = [], selected_rfp = None,
      user_selected_rfp_id = None, technical_analysis = None, pricing_analysis = None,
      final_response = None, report_path = None, report_url = None, product_summary = None,
      test_summary = None, waiting_for_user = False, user_prompt = None,
      agent_reasoning = [], tool_calls_made = [], session_id = sid, error = None\<rparr>"

definition has_error :: "AgentState \<Rightarrow> bool" where
  "has_error state = (error state \<noteq> None)"

text \<open>
  What a stage returns: a dictionary with the keys it changes, here the list of its
  items. The engine merges it into the state key by key. \<^verbatim>\<open>messages\<close> is declared
  \<^verbatim>\<open>Annotated[List[BaseMessage], operator.add]\<close>, so its item is appended to the log; the
  item of any other key replaces the value.
\<close>

datatype update =
    Messages "message list"
  | Current_step string
  | Next_node string
  | Rfps_identified "rfp list"
  | Selected_rfp "rfp option"
  | User_selected_rfp_id "string option"
  | Technical_analysis "tech_analysis option"
  | Pricing_analysis "pydict option"
  | Final_response "string option"
  | Report_path "string option"
  | Report_url "string option"
  | Product_summary "string option"
  | Test_summary "string option"
  | Waiting_for_user bool
  | User_prompt "string option"
  | Agent_reasoning "pydict list"
  | Tool_calls_made "pydict list"
  | Session_id string
  | Error "string option"

fun apply_update :: "AgentState \<Rightarrow> update \<Rightarrow> AgentState" where
  "apply_update s (Messages ms) = s\<lparr>messages := messages s @ ms\<rparr>"
| "apply_update s (Current_step v) = s\<lparr>current_step := v\<rparr>"
| "apply_update s (Next_node v) = s\<lparr>next_node := Some v\<rparr>"
| "apply_update s (Rfps_identified v) = s\<lparr>rfps_identified := v\<rparr>"
| "apply_update s (Selected_rfp v) = s\<lparr>selected_rfp := v\<rparr>"
| "apply_update s (User_selected_rfp_id v) = s\<lparr>user_selected_rfp_id := v\<rparr>"
| "apply_update s (Technical_analysis v) = s\<lparr>technical_analysis := v\<rparr>"
| "apply_update s (Pricing_analysis v) = s\<lparr>pricing_analysis := v\<rparr>"
| "apply_update s (Final_response v) = s\<lparr>final_response := v\<rparr>"
| "apply_update s (Report_path v) = s\<lparr>report_path := v\<rparr>"
| "apply_update s (Report_url v) = s\<lparr>report_url := v\<rparr>"
| "apply_update s (Product_summary v) = s\<lparr>product_summary := v\<rparr>"
| "apply_update s (Test_summary v) = s\<lparr>test_summary := v\<rparr>"
| "apply_update s (Waiting_for_user v) = s\<lparr>waiting_for_user := v\<rparr>"
| "apply_update s (User_prompt v) = s\<lparr>user_prompt := v\<rparr>"
| "apply_update s (Agent_reasoning v) = s\<lparr>agent_reasoning := v\<rparr>"
| "apply_update s (Tool_calls_made v) = s\<lparr>tool_calls_made := v\<rparr>"
| "apply_update s (Session_id v) = s\<lparr>session_id := v\<rparr>"
| "apply_update s (Error v) = s\<lparr>error := v\<rparr>"

definition apply_delta :: "AgentState \<Rightarrow> update list \<Rightarrow> AgentState" where
  "apply_delta s delta = foldl apply_update s delta"

text \<open>Whether a stage's dictionary has the key \<^verbatim>\<open>error\<close>.\<close>

fun is_error_update :: "update \<Rightarrow> bool" where
  "is_error_update (Error v) = True"
| "is_error_update u = False"

definition writes_error :: "update list \<Rightarrow> bool" where
  "writes_error delta = list_ex is_error_update delta"

section \<open>The collaborators\<close>

text \<open>
  What the stages call outside the sources at hand, as parameters of the model:
  \<^item> \<open>get_shared_llm\<close>: whether \<^verbatim>\<open>get_shared_llm()\<close> returns a client or raises (it raises
    \<^verbatim>\<open>ValueError\<close> when no API key is set);
  \<^item> \<open>llm_invoke\<close>: the outcome of \<^verbatim>\<open>llm.invoke(messages)\<close>, the text of the answer or an
    exception; the prompt is built from the state and the collaborators' data, so the
    model passes the state;
  \<^item> \<open>scan_rfps_tool\<close>: the outcome of the scan for the fixed keywords, which reads a file
    and the clock;
  \<^item> \<open>load_oem_catalog\<close>: the catalog read from the file (empty when there is none);
  \<^item> \<open>extract_requirements\<close>: the requirements the regular expressions find in a text;
  \<^item> \<open>main_agent_node\<close>, \<open>pricing_agent_node\<close>: the intake and valuation stages, which
    return a dictionary of updates or raise;
  \<^item> \<open>recursion_limit\<close>: the number of steps after which the graph library stops a run.
\<close>

record env =
  get_shared_llm :: "exn + unit"
  llm_invoke :: "AgentState \<Rightarrow> exn + string"
  scan_rfps_tool :: "exn + rfp list"
  load_oem_catalog :: "catalog_product list"
  extract_requirements :: "string \<Rightarrow> pydict"
  main_agent_node :: "AgentState \<Rightarrow> exn + update list"
  pricing_agent_node :: "AgentState \<Rightarrow> exn + update list"
  recursion_limit :: nat

section \<open>The discovery stage (\<^verbatim>\<open>sales_agent/node.py\<close>)\<close>

text \<open>The loop that qualifies every scanned record; an exception ends it.\<close>

fun qualify_all :: "rfp list \<Rightarrow> criteria \<Rightarrow> exn + qualification list" where
  "qualify_all [] c = Inr []"
| "qualify_all (r # rs) c =
     (case qualify_rfp_tool r c of
        Inl e \<Rightarrow> Inl e
      | Inr qual \<Rightarrow> (case qualify_all rs c of Inl e \<Rightarrow> Inl e | Inr quals \<Rightarrow> Inr (qual # quals)))"

text \<open>The body of the \<^verbatim>\<open>try\<close> block: \<open>Inl\<close> is an exception raised inside it.\<close>

definition sales_try :: "env \<Rightarrow> AgentState \<Rightarrow> exn + update list" where
  "sales_try E state =
     (case scan_rfps_tool E of
        Inl e \<Rightarrow> Inl e
      | Inr scanned_rfps \<Rightarrow>
          if scanned_rfps = [] then
            Inr [Messages [AIMessage
                   ''No RFPs found matching your criteria. Try different search terms.''],
                 Next_node NodeName_END, Current_step COMPLETE]
          else
            (case qualify_all scanned_rfps sales_criteria of
               Inl e \<Rightarrow> Inl e
             | Inr qualifications \<Rightarrow>
                 (case prioritize_rfps_tool scanned_rfps qualifications 5 of
                    Inl e \<Rightarrow> Inl e
                  | Inr top_rfps \<Rightarrow>
                      if top_rfps = [] then
                        Inr [Messages [AIMessage
                               ''No RFPs qualified based on criteria. Try adjusting your requirements.''],
                             Next_node NodeName_END, Current_step COMPLETE]
                      else
                        (case llm_invoke E state of
                           Inl e \<Rightarrow> Inl e
                         | Inr response \<Rightarrow>
                             Inr [Messages [AIMessage response], Rfps_identified top_rfps,
                                  Current_step WAITING_USER, Next_node NodeName_END]))))"

text \<open>
  \<^verbatim>\<open>sales_agent_node(state)\<close>. \<^verbatim>\<open>get_shared_llm()\<close> is called before the \<^verbatim>\<open>try\<close>: an
  exception there leaves the stage; one inside the block becomes the error dictionary.
\<close>

definition sales_agent_node :: "env \<Rightarrow> AgentState \<Rightarrow> exn + update list" where
  "sales_agent_node E state =
     (case get_shared_llm E of
        Inl e \<Rightarrow> Inl e
      | Inr llm \<Rightarrow>
          (case sales_try E state of
             Inr delta \<Rightarrow> Inr delta
           | Inl e \<Rightarrow>
               Inr [Messages [AIMessage (''Error: '' @ str_exn e)],
                    Next_node NodeName_END, Current_step ERROR]))"

section \<open>The assessment stage (\<^verbatim>\<open>technical_agent/node.py\<close>)\<close>

text \<open>The cross mark of the error message, as its three UTF-8 bytes.\<close>

definition cross_mark :: string where
  "cross_mark = [CHR 0xE2, CHR 0x9D, CHR 0x8C]"

text \<open>The body of the \<^verbatim>\<open>try\<close> block, for the selected record.\<close>

definition technical_try :: "env \<Rightarrow> AgentState \<Rightarrow> rfp \<Rightarrow> exn + update list" where
  "technical_try E state selected =
     (let rfp_text = get_or (title selected) [] @ '' '' @ get_or (description selected) [];
          reqs = extract_requirements E rfp_text;
          catalog = load_oem_catalog E;
          recommendations = (if catalog \<noteq> [] then match_oem_products catalog reqs 3 else []);
          table = (if recommendations \<noteq> [] then build_comparison_table recommendations else [])
      in case llm_invoke E state of
           Inl e \<Rightarrow> Inl e
         | Inr response \<Rightarrow>
             Inr [Messages [AIMessage response],
                  Technical_analysis (Some
                    \<lparr>ta_rfp_id = rfp_id selected, analysis = response, requirements = reqs,
                     recommended_products = recommendations, comparison_table = table\<rparr>),
                  Current_step PRICING, Next_node PRICING_AGENT])"

text \<open>
  \<^verbatim>\<open>technical_agent_node(state)\<close>. \<^verbatim>\<open>not selected_rfp\<close> holds for \<^verbatim>\<open>None\<close> and for the
  empty dictionary.
\<close>

definition technical_agent_node :: "env \<Rightarrow> AgentState \<Rightarrow> exn + update list" where
  "technical_agent_node E state =
     (case get_shared_llm E of
        Inl e \<Rightarrow> Inl e
      | Inr llm \<Rightarrow>
          (case selected_rfp state of
             None \<Rightarrow>
               Inr [Messages [AIMessage ''No RFP selected. Please select an RFP first.''],
                    Next_node NodeName_END, Current_step ERROR]
           | Some selected \<Rightarrow>
               if selected = empty_rfp then
                 Inr [Messages [AIMessage ''No RFP selected. Please select an RFP first.''],
                      Next_node NodeName_END, Current_step ERROR]
               else
                 (case technical_try E state selected of
                    Inr delta \<Rightarrow> Inr delta
                  | Inl e \<Rightarrow>
                      Inr [Messages [AIMessage
                             (cross_mark @ '' Error analyzing RFP: '' @ str_exn e @
                              [CHR 0x0A, CHR 0x0A] @ ''Please check backend logs for details.'')],
                           Next_node NodeName_END, Current_step ERROR])))"

section \<open>The routers and the graph (\<^verbatim>\<open>graph.py\<close>)\<close>

text \<open>\<^verbatim>\<open>state.get("next_node", NodeName.END)\<close>\<close>

definition get_next_node :: "AgentState \<Rightarrow> string" where
  "get_next_node state = get_or (next_node state) NodeName_END"

definition route_from_main :: "AgentState \<Rightarrow> string" where
  "route_from_main state =
     (let nxt = get_next_node state
      in if nxt = SALES_AGENT then ''sales_agent''
         else if nxt = TECHNICAL_AGENT then ''technical_agent''
         else END)"

definition route_from_sales :: "AgentState \<Rightarrow> string" where
  "route_from_sales state = END"

definition route_from_technical :: "AgentState \<Rightarrow> string" where
  "route_from_technical state =
     (let nxt = get_next_node state
      in if nxt = PRICING_AGENT then ''pricing_agent'' else END)"

definition route_from_pricing :: "AgentState \<Rightarrow> string" where
  "route_from_pricing state =
     (let nxt = get_next_node state
      in if nxt = MAIN_AGENT then ''main_agent'' else END)"

text \<open>
  \<^verbatim>\<open>create_workflow\<close>: the four \<^verbatim>\<open>add_node\<close> calls, and the four
  \<^verbatim>\<open>add_conditional_edges\<close> calls with the router and the dictionary from the router's
  answer to the next node.
\<close>

definition node_function :: "env \<Rightarrow> string \<Rightarrow> (AgentState \<Rightarrow> exn + update list) option" where
  "node_function E node =
     (if node = ''main_agent'' then Some (main_agent_node E)
      else if node = ''sales_agent'' then Some (sales_agent_node E)
      else if node = ''technical_agent'' then Some (technical_agent_node E)
      else if node = ''pricing_agent'' then Some (pricing_agent_node E)
      else None)"

definition conditional_edges ::
  "string \<Rightarrow> ((AgentState \<Rightarrow> string) \<times> (string \<times> string) list) option" where
  "conditional_edges node =
     (if node = ''main_agent'' then
        Some (route_from_main,
          [(''sales_agent'', ''sales_agent''), (''technical_agent'', ''technical_agent''),
           (END, END)])
      else if node = ''sales_agent'' then Some (route_from_sales, [(END, END)])
      else if node = ''technical_agent'' then
        Some (route_from_technical, [(''pricing_agent'', ''pricing_agent''), (END, END)])
      else if node = ''pricing_agent'' then
        Some (route_from_pricing, [(''main_agent'', ''main_agent''), (END, END)])
      else None)"

definition entry_point :: string where
  "entry_point = ''main_agent''"

text \<open>
  The node that follows \<open>node\<close> on a state: the router's answer, looked up in the
  dictionary of the edge. \<open>None\<close> is an answer the dictionary does not hold, or a node
  without an edge.
\<close>

definition next_target :: "string \<Rightarrow> AgentState \<Rightarrow> string option" where
  "next_target node state =
     (case conditional_edges node of
        None \<Rightarrow> None
      | Some (router, path_map) \<Rightarrow> map_of path_map (router state))"

text \<open>
  The table of the specification's router: for each stage, the values of \<^verbatim>\<open>next_node\<close>
  it declares (\<^verbatim>\<open>NodeName.END\<close> is its TERMINAL).
\<close>

definition allowed_next :: "string \<Rightarrow> string list" where
  "allowed_next stage =
     (if stage = ''main_agent'' then [SALES_AGENT, TECHNICAL_AGENT, NodeName_END]
      else if stage = ''sales_agent'' then [NodeName_END]
      else if stage = ''technical_agent'' then [PRICING_AGENT, NodeName_END]
      else if stage = ''pricing_agent'' then [MAIN_AGENT, NodeName_END]
      else [])"

definition stages :: "string list" where
  "stages = [''main_agent'', ''sales_agent'', ''technical_agent'', ''pricing_agent'']"

text \<open>
  A run of the compiled graph from a node: the node's dictionary is merged into the
  state, the conditional edge is evaluated on the merged state, and the run ends at
  \<^verbatim>\<open>END\<close>. The count of steps left is the library's recursion limit; a run that uses it up
  ends with the library's error.
\<close>

datatype run_error = NodeRaised exn | GraphRecursionError | InvalidGraph

fun run_graph :: "env \<Rightarrow> nat \<Rightarrow> string \<Rightarrow> AgentState \<Rightarrow> run_error + AgentState" where
  "run_graph E 0 node state = Inl GraphRecursionError"
| "run_graph E (Suc steps) node state =
     (case node_function E node of
        None \<Rightarrow> Inl InvalidGraph
      | Some f \<Rightarrow>
          (case f state of
             Inl e \<Rightarrow> Inl (NodeRaised e)
           | Inr delta \<Rightarrow>
               (let state' = apply_delta state delta
                in case next_target node state' of
                     None \<Rightarrow> Inl InvalidGraph
                   | Some target \<Rightarrow>
                       if target = END then Inr state'
                       else run_graph E steps target state')))"

text \<open>
  \<^verbatim>\<open>rfp_workflow.ainvoke(state, config={"configurable": {"thread_id": session_id}})\<close> on
  the graph compiled with \<^verbatim>\<open>MemorySaver()\<close>. \<open>checkpoint\<close> is the state the saver holds
  for the thread, if any: the input is written onto it key by key with the rule of
  \<open>apply_update\<close>, so the input's messages are appended to the checkpointed log and the
  input's other keys replace the checkpointed values. The run starts at the entry point.
\<close>

definition ainvoke :: "env \<Rightarrow> AgentState option \<Rightarrow> AgentState \<Rightarrow> run_error + AgentState" where
  "ainvoke E checkpoint input =
     (let start = (case checkpoint of
                     None \<Rightarrow> input
                   | Some saved \<Rightarrow> input\<lparr>messages := messages saved @ messages input\<rparr>)
      in run_graph E (recursion_limit E) entry_point start)"

section \<open>The chat endpoints (\<^verbatim>\<open>chat.py\<close>, \<^verbatim>\<open>memory_manager.py\<close>)\<close>




text \<open>
  Where a session's state lives in the server process and behind it:
  \<^item> \<open>database\<close>: the durable store behind \<^verbatim>\<open>drizzle_client\<close>;
  \<^item> \<open>checkpointer\<close>: the \<^verbatim>\<open>MemorySaver\<close> of the compiled graph, by thread id;
  \<^item> \<open>chat_sessions\<close>: the dictionary of \<^verbatim>\<open>core/config.py\<close>;
  \<^item> \<open>memory_cache\<close>, \<open>last_sync\<close>: the dictionaries of \<^verbatim>\<open>AgentMemoryManager\<close> (the
    conversation buffer of a session, and the time of its last save in seconds).
\<close>

record system =
  database :: "string \<rightharpoonup> AgentState"
  checkpointer :: "string \<rightharpoonup> AgentState"
  chat_sessions :: "string \<rightharpoonup> AgentState"
  memory_cache :: "string \<rightharpoonup> message list"
  last_sync :: "string \<rightharpoonup> int"

text \<open>
  Modelled from the spec: the client module \<^verbatim>\<open>core/db/client.py\<close> is not among the
  sources. \<^verbatim>\<open>load_agent_state\<close> returns \<^verbatim>\<open>drizzle_client.load_chat_session(session_id)\<close>,
  the State Store's \<^verbatim>\<open>get(session_id) -> optional WorkflowState\<close>.
\<close>

definition load_agent_state :: "system \<Rightarrow> string \<Rightarrow> AgentState option" where
  "load_agent_state sys sid = database sys sid"

text \<open>\<^verbatim>\<open>AgentMemoryManager.clear_memory(session_id)\<close>\<close>

definition clear_memory :: "system \<Rightarrow> string \<Rightarrow> system" where
  "clear_memory sys sid =
     sys\<lparr>memory_cache := (memory_cache sys)(sid := None),
         last_sync := (last_sync sys)(sid := None)\<rparr>"

text \<open>The endpoint \<^verbatim>\<open>DELETE /api/chat/sessions/{session_id}\<close>.\<close>

definition clear_session :: "system \<Rightarrow> string \<Rightarrow> system" where
  "clear_session sys sid =
     (let sys' = clear_memory sys sid
      in sys'\<lparr>chat_sessions := (chat_sessions sys')(sid := None)\<rparr>)"

text \<open>
  The endpoint \<^verbatim>\<open>DELETE /api/chat/{session_id}\<close>, the second function of the name
  \<^verbatim>\<open>clear_session\<close> in \<^verbatim>\<open>chat.py\<close>.
\<close>

definition clear_session_2 :: "system \<Rightarrow> string \<Rightarrow> system" where
  "clear_session_2 sys sid = sys\<lparr>chat_sessions := (chat_sessions sys)(sid := None)\<rparr>"

text \<open>The summaries \<^verbatim>\<open>get_workflow_state\<close> builds.\<close>

record rfp_summary =
  sum_id :: string
  sum_title :: "string option"
  sum_client :: "string option"
  sum_estimated_value :: "int option"
  sum_submission_deadline :: "string option"
  sum_priority_score :: "int option"

record selected_summary =
  sel_id :: string
  sel_title :: "string option"
  sel_client :: "string option"

record workflow_summary =
  ws_session_id :: string
  ws_current_step :: string
  ws_next_node :: "string option"
  ws_waiting_for_user :: bool
  ws_rfps_identified :: "rfp_summary list"
  ws_selected_rfp :: "selected_summary option"
  ws_report_url :: "string option"
  ws_error :: "string option"

datatype state_response = Not_exists string | Exists workflow_summary

text \<open>\<^verbatim>\<open>rfp.get("id") or rfp.get("rfp_id", "")\<close>\<close>

definition get_rfp_id :: "rfp \<Rightarrow> string" where
  "get_rfp_id r =
     (case id_key r of
        Some i \<Rightarrow> if i \<noteq> [] then i else get_or (rfp_id r) []
      | None \<Rightarrow> get_or (rfp_id r) [])"

text \<open>\<^verbatim>\<open>r.get("estimated_value") or r.get("value")\<close>\<close>

definition get_estimated_value :: "rfp \<Rightarrow> int option" where
  "get_estimated_value r =
     (case estimated_value r of
        Some v \<Rightarrow> if v \<noteq> 0 then Some v else value_key r
      | None \<Rightarrow> value_key r)"

definition summarize_rfp :: "rfp \<Rightarrow> rfp_summary" where
  "summarize_rfp r =
     \<lparr>sum_id = get_rfp_id r, sum_title = title r, sum_client = client r,
      sum_estimated_value = get_estimated_value r,
      sum_submission_deadline = submission_deadline r,
      sum_priority_score = priority_score r\<rparr>"

text \<open>
  The endpoint \<^verbatim>\<open>GET /api/chat/state/{session_id}\<close>, with the process state it leaves
  behind: it reads \<^verbatim>\<open>chat_sessions\<close> and writes nothing.
\<close>

definition get_workflow_state :: "system \<Rightarrow> string \<Rightarrow> state_response \<times> system" where
  "get_workflow_state sys sid =
     (case chat_sessions sys sid of
        None \<Rightarrow> (Not_exists sid, sys)
      | Some state \<Rightarrow>
          (Exists
             \<lparr>ws_session_id = sid,
              ws_current_step = current_step state,
              ws_next_node = next_node state,
              ws_waiting_for_user = waiting_for_user state,
              ws_rfps_identified = map summarize_rfp (rfps_identified state),
              ws_selected_rfp =
                (case selected_rfp state of
                   None \<Rightarrow> None
                 | Some r \<Rightarrow>
                     Some \<lparr>sel_id = get_rfp_id r, sel_title = title r, sel_client = client r\<rparr>),
              ws_report_url = report_url state,
              ws_error = error state\<rparr>,
           sys))"

section \<open>Sample sessions\<close>

text \<open>
  Modelled from the spec: \<^verbatim>\<open>main_agent/node.py\<close> and \<^verbatim>\<open>pricing_agent/node.py\<close> are not
  among the sources. The examples use intake stages the specification allows: one that
  answers directly and ends the turn, and one that only names the stage to run next.
\<close>

definition direct_reply :: "AgentState \<Rightarrow> exn + update list" where
  "direct_reply state = Inr [Messages [AIMessage ''How can I help?''], Next_node NodeName_END]"

definition delegate_to :: "string \<Rightarrow> AgentState \<Rightarrow> exn + update list" where
  "delegate_to stage state = Inr [Next_node stage]"

text \<open>
  A process where every collaborator answers: the scan finds nothing, the catalog is
  empty, the intake stage answers directly.
\<close>

definition reply_env :: env where
  "reply_env =
     \<lparr>get_shared_llm = Inr (), llm_invoke = (\<lambda>state. Inr ''Analysis: feasible.''),
      scan_rfps_tool = Inr [], load_oem_catalog = [], extract_requirements = (\<lambda>t. []),
      main_agent_node = direct_reply, pricing_agent_node = delegate_to NodeName_END,
      recursion_limit = 25\<rparr>"

text \<open>The scan raises, and the intake stage delegates to discovery.\<close>

definition failing_scan_env :: env where
  "failing_scan_env =
     reply_env\<lparr>scan_rfps_tool := Inl (Exception ''mock data unreadable''),
               main_agent_node := delegate_to SALES_AGENT\<rparr>"



definition fresh_state :: AgentState where
  "fresh_state = create_initial_state ''s1'' ''find cable tenders''"

text \<open>The state of the session after a first turn that listed tenders.\<close>

definition stored_state :: AgentState where
  "stored_state =
     fresh_state\<lparr>messages := [HumanMessage ''find cable tenders'', AIMessage ''Three tenders found.''],
                 current_step := WAITING_USER, next_node := Some NodeName_END\<rparr>"


text \<open>The dictionary the assessment stage returns without a selection.\<close>

definition no_selection_delta :: "update list" where
  "no_selection_delta =
     [Messages [AIMessage ''No RFP selected. Please select an RFP first.''],
      Next_node NodeName_END, Current_step ERROR]"

definition sample_system :: system where
  "sample_system =
     \<lparr>database = [''s1'' \<mapsto> stored_state], checkpointer = [''s1'' \<mapsto> stored_state],
      chat_sessions = [''s1'' \<mapsto> stored_state],
      memory_cache = [''s1'' \<mapsto> messages stored_state], last_sync = [''s1'' \<mapsto> 1700000000]\<rparr>"

section \<open>Evaluating the string helpers\<close>

lemma digits_numeral [simp]:
  "digits (numeral k) =
     (if (numeral k :: nat) < 10 then [digit_char (numeral k)]
      else digits (numeral k div 10) @ [digit_char (numeral k mod 10)])"
  by (rule digits.simps)

lemma digits_small [simp]: "digits 0 = ''0''" "digits 1 = ''1''" "digits (Suc 0) = ''1''"
  by (simp_all add: digits.simps digit_char_def)

section \<open>The qualification score\<close>

lemma timeline_block_score: "score (timeline_block r c q) = score q + timeline_points r c"
  by (simp add: timeline_block_def timeline_points_def Let_def)

lemma value_block_score: "score (value_block r c q) = score q + value_points r c"
  by (simp add: value_block_def value_points_def Let_def)

lemma location_block_score: "score (location_block r c q) = score q + location_points r c"
  by (simp add: location_block_def location_points_def Let_def)

lemma timeline_block_reasons:
  "get_or (days_remaining r) 0 < get_or (min_days_remaining c) 7 \<Longrightarrow>
   reasons (timeline_block r c q) = reasons q @ [insufficient_time_reason r c]"
  by (simp add: timeline_block_def insufficient_time_reason_def Let_def)

lemma value_block_reasons: "set (reasons q) \<subseteq> set (reasons (value_block r c q))"
  by (auto simp add: value_block_def Let_def)

lemma location_block_reasons: "set (reasons q) \<subseteq> set (reasons (location_block r c q))"
  by (auto simp add: location_block_def Let_def)

text \<open>
  C9. For a record that has an \<^verbatim>\<open>rfp_id\<close>, \<^verbatim>\<open>qualify_rfp_tool\<close> returns a qualification
  whose \<^verbatim>\<open>qualified\<close> is \<^verbatim>\<open>score >= 60\<close>, the score being the sum of the timeline, value
  and location points. Below the minimum number of days the timeline points are zero and
  the reason "Insufficient time" is recorded, yet the record is reported qualified exactly
  when the value and location points reach 60: the last assignment overwrites the flag
  the timeline block cleared.
\<close>

theorem qualify_rfp_tool_score:
  assumes "rfp_id r = Some rid"
  shows "\<exists>q. qualify_rfp_tool r c = Inr q
           \<and> qualified_flag q = (60 \<le> score q)
           \<and> score q = timeline_points r c + value_points r c + location_points r c
           \<and> (get_or (days_remaining r) 0 < get_or (min_days_remaining c) 7 \<longrightarrow>
                timeline_points r c = 0
                \<and> insufficient_time_reason r c \<in> set (reasons q)
                \<and> qualified_flag q = (60 \<le> value_points r c + location_points r c))"
proof -
  define q0 where "q0 = \<lparr>q_rfp_id = rid, qualified_flag = True, score = 0, reasons = []\<rparr>"
  define q3 :: qualification where "q3 = location_block r c (value_block r c (timeline_block r c q0))"
  define q where "q = q3\<lparr>qualified_flag := (60 \<le> score q3)\<rparr>"
  have ret: "qualify_rfp_tool r c = Inr q"
    using assms by (simp add: qualify_rfp_tool_def q_def q3_def q0_def Let_def)
  have sc: "score q = timeline_points r c + value_points r c + location_points r c"
    by (simp add: q_def q3_def q0_def location_block_score value_block_score timeline_block_score)
  have fl: "qualified_flag q = (60 \<le> score q)"
    by (simp add: q_def)
  have late: "timeline_points r c = 0 \<and> insufficient_time_reason r c \<in> set (reasons q)
      \<and> qualified_flag q = (60 \<le> value_points r c + location_points r c)"
    if lt: "get_or (days_remaining r) 0 < get_or (min_days_remaining c) 7"
  proof -
    have z: "timeline_points r c = 0"
      using lt by (simp add: timeline_points_def Let_def)
    have "insufficient_time_reason r c \<in> set (reasons (timeline_block r c q0))"
      using lt by (simp add: timeline_block_reasons)
    then have "insufficient_time_reason r c \<in> set (reasons q3)"
      unfolding q3_def using value_block_reasons location_block_reasons by blast
    then have "insufficient_time_reason r c \<in> set (reasons q)"
      by (simp add: q_def)
    with z fl sc show ?thesis by simp
  qed
  from ret sc fl late show ?thesis by blast
qed

lemma late_rfp_qualification:
  "qualify_rfp_tool late_rfp sales_criteria =
     Inr \<lparr>q_rfp_id = ''RFP-7'', qualified_flag = True, score = 70,
       reasons = [''Insufficient time: 3 days (need 7+)'',
                  ''High value: '' @ rupee @ ''10,000,000'', ''Location: Mumbai'']\<rparr>"
  by (simp add: qualify_rfp_tool_def timeline_block_def value_block_def location_block_def
      late_rfp_def sales_criteria_def empty_rfp_def get_or_def Let_def str_int_def
      format_commas_def digit_char_def)

text \<open>
  Three days left against a minimum of seven, a high tender value and no preferred
  location: 0 + 40 + 30 points, qualified.
\<close>

theorem qualify_rfp_tool_score_witness:
  "rfp_id late_rfp = Some ''RFP-7''
   \<and> get_or (days_remaining late_rfp) 0 < get_or (min_days_remaining sales_criteria) 7
   \<and> (\<exists>q. qualify_rfp_tool late_rfp sales_criteria = Inr q \<and> qualified_flag q \<and> score q = 70
          \<and> timeline_points late_rfp sales_criteria = 0
          \<and> value_points late_rfp sales_criteria + location_points late_rfp sales_criteria = 70
          \<and> ''Insufficient time: 3 days (need 7+)'' \<in> set (reasons q))"
proof -
  have id: "rfp_id late_rfp = Some ''RFP-7''"
    by (simp add: late_rfp_def empty_rfp_def)
  have lt: "get_or (days_remaining late_rfp) 0 < get_or (min_days_remaining sales_criteria) 7"
    by (simp add: late_rfp_def empty_rfp_def sales_criteria_def get_or_def)
  have vp: "value_points late_rfp sales_criteria = 40"
    by (simp add: value_points_def late_rfp_def empty_rfp_def sales_criteria_def get_or_def)
  have lp: "location_points late_rfp sales_criteria = 30"
    by (simp add: location_points_def late_rfp_def empty_rfp_def sales_criteria_def get_or_def)
  have rs: "insufficient_time_reason late_rfp sales_criteria = ''Insufficient time: 3 days (need 7+)''"
    by (simp add: insufficient_time_reason_def late_rfp_def empty_rfp_def sales_criteria_def
        get_or_def str_int_def digit_char_def)
  from qualify_rfp_tool_score [OF id, of sales_criteria] lt vp lp rs id
  show ?thesis by auto
qed

section \<open>Ranking the catalog\<close>

lemma score_fields_count:
  "fst (score_fields specs req fs (sc, m, cs)) =
     sc + int (length (filter (field_matches specs req) fs))"
  by (induction fs arbitrary: sc m cs) (simp_all add: Let_def)

lemma py_round1_tenths: "py_round1 (of_int j / 10) = of_int j / 10"
proof -
  have y: "(of_int j / 10 * 10 :: rat) = of_int j" by simp
  show ?thesis unfolding py_round1_def Let_def y floor_of_int by simp
qed

lemma length_SPEC_FIELDS: "length SPEC_FIELDS = 8"
  by (simp add: SPEC_FIELDS_def)

lemma matching_fields_le: "matching_fields p req \<le> 8"
  unfolding matching_fields_def using length_filter_le [of _ SPEC_FIELDS]
  by (simp add: length_SPEC_FIELDS)

lemma match_score_count:
  "match_score (score_catalog_product p req) = of_nat (matching_fields p req) * 100 / 8"
proof -
  obtain sc m cs where r: "score_fields (specifications p) req SPEC_FIELDS (0, [], []) = (sc, m, cs)"
    by (cases "score_fields (specifications p) req SPEC_FIELDS (0, [], [])") auto
  have sc: "sc = int (matching_fields p req)"
    using score_fields_count [of "specifications p" req SPEC_FIELDS 0 "[]" "[]"] r
    by (simp add: matching_fields_def)
  have "match_score (score_catalog_product p req) = py_round1 (of_int sc / of_nat 8 * 100)"
    by (simp only: score_catalog_product_def r Let_def length_SPEC_FIELDS prod.case
        scored_product.simps catalog_product.simps)
  also have "of_int sc / of_nat 8 * 100 = (of_int (125 * sc) / 10 :: rat)"
    by simp
  also have "py_round1 (of_int (125 * sc) / 10) = of_int (125 * sc) / 10"
    by (rule py_round1_tenths)
  finally show ?thesis by (simp add: sc)
qed

lemma match_score_bounds:
  "0 \<le> match_score (score_catalog_product p req) \<and> match_score (score_catalog_product p req) \<le> 100"
proof -
  have "(of_nat (matching_fields p req) :: rat) \<le> 8"
    using matching_fields_le [of p req] by (metis of_nat_le_iff of_nat_numeral)
  then show ?thesis by (simp add: match_score_count)
qed

lemma sort_desc_sorted:
  fixes k :: "'a \<Rightarrow> 'b::linordered_ab_group_add"
  shows "sorted_wrt (\<lambda>a b. k b \<le> k a) (sort_desc k xs)"
proof -
  have "sorted (map (\<lambda>x. - k x) (sort_desc k xs))"
    unfolding sort_desc_def by (rule sorted_sort_key)
  then show ?thesis by (simp add: sorted_map)
qed

lemma py_slice_to_sorted: "sorted_wrt P xs \<Longrightarrow> sorted_wrt P (py_slice_to n xs)"
  by (simp add: py_slice_to_def sorted_wrt_take)

lemma set_py_slice_to: "set (py_slice_to n xs) \<subseteq> set xs"
  by (simp add: py_slice_to_def set_take_subset)

lemma set_sort_desc: "set (sort_desc k xs) = set xs"
  by (simp add: sort_desc_def)

lemma none_never_matches: "dict_get req f = VNone \<Longrightarrow> \<not> field_matches specs req f"
  by (simp add: field_matches_def)

lemma map_of_replace_other:
  "k' \<noteq> k \<Longrightarrow>
   map_of (map (\<lambda>(a, b). if a = k then (a, v) else (a, b)) d) k' = map_of d k'"
  by (induction d) auto

lemma map_of_dict_set_other: "k' \<noteq> k \<Longrightarrow> map_of (dict_set d k v) k' = map_of d k'"
  by (auto simp add: dict_set_def map_of_replace_other map_add_def split: option.splits)

lemma score_fields_matched:
  "map_of m f = None \<Longrightarrow> \<not> field_matches specs req f \<Longrightarrow>
   map_of (fst (snd (score_fields specs req fs (sc, m, cs)))) f = None"
proof (induction fs arbitrary: sc m cs)
  case Nil
  then show ?case by simp
next
  case (Cons g fs)
  show ?case
  proof (cases "field_matches specs req g")
    case True
    with Cons.prems have "g \<noteq> f" by auto
    with Cons.prems have "map_of (dict_set m g (derive_product_field specs g)) f = None"
      using map_of_dict_set_other [of f g m] by simp
    with Cons.IH Cons.prems(2) True show ?thesis by (simp add: Let_def)
  next
    case False
    with Cons show ?thesis by (simp add: Let_def)
  qed
qed

lemma matched_fields_none:
  assumes "dict_get req f = VNone"
  shows "map_of (matched_fields (score_catalog_product p req)) f = None"
proof -
  obtain sc m cs where r: "score_fields (specifications p) req SPEC_FIELDS (0, [], []) = (sc, m, cs)"
    by (cases "score_fields (specifications p) req SPEC_FIELDS (0, [], [])") auto
  have "map_of (fst (snd (score_fields (specifications p) req SPEC_FIELDS (0, [], [])))) f = None"
    by (rule score_fields_matched) (simp_all add: none_never_matches assms)
  then show ?thesis
    by (simp add: score_catalog_product_def r Let_def)
qed

text \<open>
  C10. For a count \<open>top_n\<close> that is not negative, \<^verbatim>\<open>match_oem_products\<close> returns at most
  \<open>top_n\<close> entries, in non-increasing order of \<^verbatim>\<open>match_score\<close>; every entry is a scored
  product of the catalog with a score between 0 and 100; the score of a product is the
  number of matching fields out of the eight of \<^verbatim>\<open>SPEC_FIELDS\<close>, as a percentage; and a
  requirement that is \<^verbatim>\<open>None\<close> is no match and leaves no entry in \<^verbatim>\<open>matched_fields\<close>,
  whatever the product holds for the field.
\<close>

theorem match_oem_products_ranked:
  assumes "0 \<le> top_n"
  shows "length (match_oem_products catalog req top_n) \<le> nat top_n
    \<and> sorted_wrt (\<lambda>a b. match_score b \<le> match_score a) (match_oem_products catalog req top_n)
    \<and> (\<forall>x \<in> set (match_oem_products catalog req top_n).
          (\<exists>p \<in> set catalog. x = score_catalog_product p req)
          \<and> 0 \<le> match_score x \<and> match_score x \<le> 100)
    \<and> (\<forall>p. match_score (score_catalog_product p req) = of_nat (matching_fields p req) * 100 / 8
            \<and> matching_fields p req \<le> 8)
    \<and> (\<forall>p f. dict_get req f = VNone \<longrightarrow>
          \<not> field_matches (specifications p) req f
          \<and> map_of (matched_fields (score_catalog_product p req)) f = None)"
proof -
  let ?scored = "map (\<lambda>p. score_catalog_product p req) catalog"
  have len: "length (match_oem_products catalog req top_n) \<le> nat top_n"
    using assms by (simp add: match_oem_products_def py_slice_to_def)
  have srt: "sorted_wrt (\<lambda>a b. match_score b \<le> match_score a) (match_oem_products catalog req top_n)"
    unfolding match_oem_products_def by (rule py_slice_to_sorted) (rule sort_desc_sorted)
  have sub: "set (match_oem_products catalog req top_n) \<subseteq> set ?scored"
    unfolding match_oem_products_def using set_py_slice_to [of top_n "sort_desc match_score ?scored"]
    by (simp add: set_sort_desc)
  have mem: "(\<exists>p \<in> set catalog. x = score_catalog_product p req) \<and> 0 \<le> match_score x \<and> match_score x \<le> 100"
    if "x \<in> set (match_oem_products catalog req top_n)" for x
  proof -
    from that sub obtain p where p: "p \<in> set catalog" "x = score_catalog_product p req" by auto
    with match_score_bounds [of p req] show ?thesis by blast
  qed
  from len srt mem match_score_count matching_fields_le none_never_matches matched_fields_none
  show ?thesis by blast
qed

lemma score_a: "match_score (score_catalog_product cable_a tender_requirements) = 125 / 2"
  by (simp add: score_catalog_product_def cable_a_def tender_requirements_def SPEC_FIELDS_def
      field_matches_def derive_product_field_def dict_get_def dict_set_def Let_def
      str_int_def digit_char_def lower_def lower_char_def strip_def is_space_def py_round1_def)

lemma score_b: "match_score (score_catalog_product cable_b tender_requirements) = 25 / 2"
  by (simp add: score_catalog_product_def cable_b_def tender_requirements_def SPEC_FIELDS_def
      field_matches_def derive_product_field_def dict_get_def dict_set_def Let_def
      str_int_def digit_char_def lower_def lower_char_def strip_def is_space_def py_round1_def)

lemma top_cable:
  "match_oem_products [cable_b, cable_a] tender_requirements 1 =
     [score_catalog_product cable_a tender_requirements]"
  by (simp add: match_oem_products_def sort_desc_def py_slice_to_def score_a score_b)

lemma armour_absent:
  "dict_get tender_requirements ''armour'' = VNone
   \<and> derive_product_field (specifications cable_b) ''armour'' = VNone"
  by (simp add: tender_requirements_def cable_b_def dict_get_def derive_product_field_def)

text \<open>
  The better of two cables is returned for \<open>top_n = 1\<close>: five of eight fields match.
  Neither the requirements nor the second cable say anything about the armour, and the
  field is no match.
\<close>

theorem match_oem_products_ranked_witness:
  "(0::int) \<le> 1
   \<and> map sku (match_oem_products [cable_b, cable_a] tender_requirements 1) = [VStr ''CAB-A'']
   \<and> map match_score (match_oem_products [cable_b, cable_a] tender_requirements 1) = [125 / 2]
   \<and> matching_fields cable_a tender_requirements = 5
   \<and> dict_get tender_requirements ''armour'' = VNone
   \<and> derive_product_field (specifications cable_b) ''armour'' = VNone
   \<and> \<not> field_matches (specifications cable_b) tender_requirements ''armour''"
proof -
  have sk: "sku (score_catalog_product cable_a tender_requirements) = VStr ''CAB-A''"
    by (simp add: score_catalog_product_def cable_a_def Let_def split: prod.splits)
  have "match_score (score_catalog_product cable_a tender_requirements) =
      of_nat (matching_fields cable_a tender_requirements) * 100 / 8"
    using match_oem_products_ranked [of 1 "[cable_b, cable_a]" tender_requirements] by simp
  then have mf: "matching_fields cable_a tender_requirements = 5"
    by (simp add: score_a)
  from match_oem_products_ranked [of 1 "[cable_b, cable_a]" tender_requirements] armour_absent
  have "\<not> field_matches (specifications cable_b) tender_requirements ''armour''"
    by simp
  with sk mf armour_absent show ?thesis
    by (simp add: top_cable score_a)
qed

section \<open>The targets of the conditional edges\<close>

lemma node_names:
  "MAIN_AGENT = ''main_agent''" "SALES_AGENT = ''sales_agent''"
  "TECHNICAL_AGENT = ''technical_agent''" "PRICING_AGENT = ''pricing_agent''"
  "NodeName_END = ''END''" "END = ''__end__''"
  by (simp_all add: MAIN_AGENT_def SALES_AGENT_def TECHNICAL_AGENT_def PRICING_AGENT_def
      NodeName_END_def END_def)

lemma next_target_main:
  "next_target ''main_agent'' s =
     Some (if get_next_node s = ''sales_agent'' then ''sales_agent''
           else if get_next_node s = ''technical_agent'' then ''technical_agent'' else END)"
  by (simp add: next_target_def conditional_edges_def route_from_main_def node_names Let_def)

lemma next_target_sales: "next_target ''sales_agent'' s = Some END"
  by (simp add: next_target_def conditional_edges_def route_from_sales_def)

lemma next_target_technical:
  "next_target ''technical_agent'' s =
     Some (if get_next_node s = ''pricing_agent'' then ''pricing_agent'' else END)"
  by (simp add: next_target_def conditional_edges_def route_from_technical_def node_names Let_def)

lemma next_target_pricing:
  "next_target ''pricing_agent'' s =
     Some (if get_next_node s = ''main_agent'' then ''main_agent'' else END)"
  by (simp add: next_target_def conditional_edges_def route_from_pricing_def node_names Let_def)

lemma stage_cases:
  assumes "stage \<in> set stages"
  obtains "stage = ''main_agent''" | "stage = ''sales_agent''"
    | "stage = ''technical_agent''" | "stage = ''pricing_agent''"
  using assms by (auto simp add: stages_def)

lemma next_target_declared:
  assumes "stage \<in> set stages"
  shows "\<exists>t. next_target stage state = Some t
           \<and> (t = END \<or> t \<in> set stages)
           \<and> (get_next_node state \<notin> set (allowed_next stage) \<longrightarrow> t = END)
           \<and> (t \<noteq> END \<longrightarrow> t = get_next_node state \<and> t \<in> set (allowed_next stage))"
  using assms
proof (cases rule: stage_cases)
  case 1
  then show ?thesis
    by (simp add: next_target_main allowed_next_def stages_def node_names)
next
  case 2
  then show ?thesis
    by (simp add: next_target_sales allowed_next_def stages_def node_names)
next
  case 3
  then show ?thesis
    by (simp add: next_target_technical allowed_next_def stages_def node_names)
next
  case 4
  then show ?thesis
    by (simp add: next_target_pricing allowed_next_def stages_def node_names)
qed

lemma node_function_simps:
  "node_function E ''main_agent'' = Some (main_agent_node E)"
  "node_function E ''sales_agent'' = Some (sales_agent_node E)"
  "node_function E ''technical_agent'' = Some (technical_agent_node E)"
  "node_function E ''pricing_agent'' = Some (pricing_agent_node E)"
  by (simp_all add: node_function_def)

lemma node_function_total: "stage \<in> set stages \<Longrightarrow> \<exists>f. node_function E stage = Some f"
  by (auto simp add: stages_def node_function_def)

section \<open>Merging a stage's dictionary\<close>


lemma apply_delta_Nil [simp]: "apply_delta s [] = s"
  by (simp add: apply_delta_def)

lemma apply_delta_Cons [simp]: "apply_delta s (u # us) = apply_delta (apply_update s u) us"
  by (simp add: apply_delta_def)


lemma error_apply_update: "\<not> is_error_update u \<Longrightarrow> error (apply_update s u) = error s"
  by (cases u) simp_all

lemma error_apply_delta: "\<not> writes_error d \<Longrightarrow> error (apply_delta s d) = error s"
  by (induction d arbitrary: s) (simp_all add: writes_error_def error_apply_update)

section \<open>Steps of a run\<close>

lemma run_graph_step:
  assumes "node_function E node = Some f" and "f s = Inr d"
    and "next_target node (apply_delta s d) = Some t"
  shows "run_graph E (Suc n) node s =
     (if t = END then Inr (apply_delta s d) else run_graph E n t (apply_delta s d))"
  using assms by (simp add: Let_def)

lemma run_graph_returns:
  assumes "run_graph E (Suc n) node s = Inr r"
  obtains f d t where "node_function E node = Some f" and "f s = Inr d"
    and "next_target node (apply_delta s d) = Some t"
    and "if t = END then r = apply_delta s d else run_graph E n t (apply_delta s d) = Inr r"
  using assms by (auto simp add: Let_def split: option.splits sum.splits if_splits)

declare run_graph.simps(2) [simp del]


lemma run_graph_never_invalid:
  "node \<in> set stages \<Longrightarrow> run_graph E n node s \<noteq> Inl InvalidGraph"
proof (induction n arbitrary: node s)
  case 0
  show ?case by simp
next
  case (Suc n)
  from node_function_total [OF Suc.prems] obtain f where f: "node_function E node = Some f" ..
  show ?case
  proof (cases "f s")
    case (Inl e)
    with f show ?thesis by (simp add: run_graph.simps)
  next
    case (Inr d)
    from next_target_declared [OF Suc.prems] obtain t where
      t: "next_target node (apply_delta s d) = Some t" "t = END \<or> t \<in> set stages" by blast
    show ?thesis
    proof (cases "t = END")
      case True
      with f Inr t show ?thesis by (simp add: run_graph_step)
    next
      case False
      with t have "t \<in> set stages" by simp
      then have "run_graph E n t (apply_delta s d) \<noteq> Inl InvalidGraph" by (rule Suc.IH)
      with f Inr t False show ?thesis by (simp add: run_graph_step)
    qed
  qed
qed

lemma fresh_fields:
  "next_node fresh_state = Some ''main_agent''" "error fresh_state = None"
  "selected_rfp fresh_state = None" "current_step fresh_state = ''IDLE''"
  "messages fresh_state = [HumanMessage ''find cable tenders'']"
  by (simp_all add: fresh_state_def create_initial_state_def MAIN_AGENT_def IDLE_def)

section \<open>Routing outside the declared successors\<close>

text \<open>
  C1, as the code has it. The routers never fail: for each of the four stages and every
  state the conditional edge has a target. The target is \<^verbatim>\<open>END\<close> whenever \<^verbatim>\<open>next_node\<close> is
  outside the stage's declared set, and a stage is the target only when \<^verbatim>\<open>next_node\<close>
  names it and the stage declares it. So an undeclared stage is never run, the run ends
  instead, and no run from a stage ends with a routing error.
\<close>

theorem router_falls_back_to_end:
  assumes "stage \<in> set stages"
  shows "(\<exists>t. next_target stage state = Some t
           \<and> (t = END \<or> t \<in> set stages)
           \<and> (get_next_node state \<notin> set (allowed_next stage) \<longrightarrow> t = END)
           \<and> (t \<noteq> END \<longrightarrow> t = get_next_node state \<and> t \<in> set (allowed_next stage)))
       \<and> run_graph E n stage state \<noteq> Inl InvalidGraph"
  using assms next_target_declared run_graph_never_invalid by blast

text \<open>
  C1, as stated, fails on the example it names: with \<^verbatim>\<open>next_node\<close> set to the discovery
  stage, which the assessment stage does not declare, \<^verbatim>\<open>route_from_technical\<close> returns
  \<^verbatim>\<open>END\<close> and the edge leads to the end of the run. Nothing is raised.
\<close>

theorem assessment_to_discovery_returns_end:
  "SALES_AGENT \<notin> set (allowed_next ''technical_agent'')
   \<and> route_from_technical (fresh_state\<lparr>next_node := Some SALES_AGENT\<rparr>) = END
   \<and> next_target ''technical_agent'' (fresh_state\<lparr>next_node := Some SALES_AGENT\<rparr>) = Some END"
  by (simp add: next_target_technical route_from_technical_def get_next_node_def get_or_def
      allowed_next_def node_names)

text \<open>
  The valuation stage with \<^verbatim>\<open>next_node = "wait_for_user"\<close>, which it does not declare:
  the run ends.
\<close>

theorem router_falls_back_to_end_witness:
  "''pricing_agent'' \<in> set stages
   \<and> get_next_node (fresh_state\<lparr>next_node := Some WAIT_FOR_USER\<rparr>)
       \<notin> set (allowed_next ''pricing_agent'')
   \<and> next_target ''pricing_agent'' (fresh_state\<lparr>next_node := Some WAIT_FOR_USER\<rparr>) = Some END"
proof -
  let ?s = "fresh_state\<lparr>next_node := Some WAIT_FOR_USER\<rparr>"
  have st: "''pricing_agent'' \<in> set stages" by (simp add: stages_def)
  have nx: "get_next_node ?s \<notin> set (allowed_next ''pricing_agent'')"
    by (simp add: get_next_node_def get_or_def allowed_next_def node_names WAIT_FOR_USER_def)
  from router_falls_back_to_end [OF st, of ?s] nx st
  show ?thesis by auto
qed

section \<open>The dictionaries the stages return\<close>

lemma sales_try_shape:
  "sales_try E s = Inr d \<Longrightarrow>
     (\<exists>m. d = [Messages m, Next_node NodeName_END, Current_step COMPLETE])
     \<or> (\<exists>m top. d = [Messages m, Rfps_identified top, Current_step WAITING_USER,
                      Next_node NodeName_END])"
  by (auto simp add: sales_try_def split: sum.splits if_splits)

lemma sales_node_shape:
  assumes "sales_agent_node E s = Inr d"
  shows "(\<exists>m. d = [Messages m, Next_node NodeName_END, Current_step COMPLETE])
     \<or> (\<exists>m top. d = [Messages m, Rfps_identified top, Current_step WAITING_USER,
                      Next_node NodeName_END])
     \<or> (\<exists>m. d = [Messages m, Next_node NodeName_END, Current_step ERROR])"
proof (cases "sales_try E s")
  case (Inl e)
  with assms show ?thesis by (auto simp add: sales_agent_node_def split: sum.splits)
next
  case (Inr d')
  with assms have "d = d'" by (auto simp add: sales_agent_node_def split: sum.splits)
  with Inr sales_try_shape [of E s d'] show ?thesis by auto
qed

lemma technical_node_shape:
  assumes "technical_agent_node E s = Inr d"
  shows "(\<exists>m. d = [Messages m, Next_node NodeName_END, Current_step ERROR])
     \<or> (\<exists>m ta. d = [Messages m, Technical_analysis ta, Current_step PRICING,
                     Next_node PRICING_AGENT])"
  using assms
  by (auto simp add: technical_agent_node_def technical_try_def Let_def
      split: sum.splits option.splits if_splits)

lemma sales_node_no_error:
  assumes "sales_agent_node E s = Inr d"
  shows "\<not> writes_error d"
  using sales_node_shape [OF assms] by (auto simp add: writes_error_def)

lemma technical_node_no_error:
  assumes "technical_agent_node E s = Inr d"
  shows "\<not> writes_error d"
  using technical_node_shape [OF assms] by (auto simp add: writes_error_def)

section \<open>The error field across a run\<close>

lemma run_graph_error:
  assumes m: "\<And>s' d'. main_agent_node E s' = Inr d' \<Longrightarrow> \<not> writes_error d'"
    and p: "\<And>s' d'. pricing_agent_node E s' = Inr d' \<Longrightarrow> \<not> writes_error d'"
  shows "run_graph E n node s = Inr r \<Longrightarrow> error r = error s"
proof (induction n arbitrary: node s)
  case 0
  then show ?case by simp
next
  case (Suc n)
  from Suc.prems obtain f d t where
    f: "node_function E node = Some f" and d: "f s = Inr d"
    and t: "if t = END then r = apply_delta s d else run_graph E n t (apply_delta s d) = Inr r"
    by (rule run_graph_returns)
  from f d have "\<not> writes_error d"
    using m p sales_node_no_error technical_node_no_error
    by (auto simp add: node_function_def split: if_splits)
  then have e: "error (apply_delta s d) = error s" by (rule error_apply_delta)
  show ?case
  proof (cases "t = END")
    case True
    with t e show ?thesis by simp
  next
    case False
    with t have "error r = error (apply_delta s d)" by (simp add: Suc.IH)
    with e show ?thesis by simp
  qed
qed

lemma ainvoke_error:
  assumes "\<And>s' d'. main_agent_node E s' = Inr d' \<Longrightarrow> \<not> writes_error d'"
    and "\<And>s' d'. pricing_agent_node E s' = Inr d' \<Longrightarrow> \<not> writes_error d'"
    and "ainvoke E checkpoint input = Inr r"
  shows "error r = error input"
proof -
  let ?start = "case checkpoint of None \<Rightarrow> input
     | Some saved \<Rightarrow> input\<lparr>messages := messages saved @ messages input\<rparr>"
  from assms(3) have "run_graph E (recursion_limit E) entry_point ?start = Inr r"
    by (simp add: ainvoke_def Let_def)
  from run_graph_error [OF assms(1,2) this] show ?thesis
    by (simp split: option.splits)
qed

text \<open>
  C3, as the code has it. Neither the discovery nor the assessment stage writes the key
  \<^verbatim>\<open>error\<close>: after the stage's dictionary is merged, \<^verbatim>\<open>error\<close> is what it was before,
  whatever the stage sets \<^verbatim>\<open>current_step\<close> to. When the intake and valuation stages do
  not write the key either, a run returns with the \<^verbatim>\<open>error\<close> of the state it was given:
  in a session that starts from \<^verbatim>\<open>create_initial_state\<close> that is \<^verbatim>\<open>None\<close>, at every step,
  \<^verbatim>\<open>ERROR\<close> included.
\<close>

theorem stages_leave_error_unchanged:
  "(sales_agent_node E s = Inr d \<longrightarrow> error (apply_delta s d) = error s)
   \<and> (technical_agent_node E s = Inr d \<longrightarrow> error (apply_delta s d) = error s)
   \<and> ((\<forall>s' d'. main_agent_node E s' = Inr d' \<longrightarrow> \<not> writes_error d')
        \<and> (\<forall>s' d'. pricing_agent_node E s' = Inr d' \<longrightarrow> \<not> writes_error d')
        \<and> ainvoke E checkpoint input = Inr r
       \<longrightarrow> error r = error input)"
  using sales_node_no_error technical_node_no_error error_apply_delta ainvoke_error
  by blast

lemma failing_scan_delta:
  "sales_agent_node failing_scan_env s =
     Inr [Messages [AIMessage ''Error: mock data unreadable''], Next_node NodeName_END,
          Current_step ERROR]"
  by (simp add: sales_agent_node_def sales_try_def failing_scan_env_def reply_env_def)

lemma failing_scan_run:
  "ainvoke failing_scan_env None fresh_state =
     Inr (apply_delta (apply_delta fresh_state [Next_node SALES_AGENT])
            [Messages [AIMessage ''Error: mock data unreadable''], Next_node NodeName_END,
             Current_step ERROR])"
proof -
  let ?E = failing_scan_env
  let ?s1 = "apply_delta fresh_state [Next_node SALES_AGENT]"
  let ?d2 = "[Messages [AIMessage ''Error: mock data unreadable''], Next_node NodeName_END,
          Current_step ERROR]"
  have lim: "recursion_limit ?E = Suc (Suc 23)"
    by (simp add: failing_scan_env_def reply_env_def)
  have m: "main_agent_node ?E fresh_state = Inr [Next_node SALES_AGENT]"
    by (simp add: failing_scan_env_def reply_env_def delegate_to_def)
  have t1: "next_target ''main_agent'' ?s1 = Some ''sales_agent''"
    by (simp add: next_target_main get_next_node_def get_or_def node_names)
  have t2: "next_target ''sales_agent'' (apply_delta ?s1 ?d2) = Some END"
    by (rule next_target_sales)
  have "run_graph ?E (Suc (Suc 23)) ''main_agent'' fresh_state =
      run_graph ?E (Suc 23) ''sales_agent'' ?s1"
    by (subst run_graph_step [OF node_function_simps(1) m t1]) (simp add: node_names)
  also have "\<dots> = Inr (apply_delta ?s1 ?d2)"
    by (subst run_graph_step [OF node_function_simps(2) failing_scan_delta t2]) simp
  finally show ?thesis
    by (simp add: ainvoke_def entry_point_def lim)
qed

text \<open>
  C3, as stated, fails: a run on a new session whose scan raises ends at the step
  \<^verbatim>\<open>ERROR\<close> with \<^verbatim>\<open>error\<close> still \<^verbatim>\<open>None\<close>. The text of the failure is in the message log.
\<close>

theorem failed_discovery_run_has_no_error_text:
  "\<exists>r. ainvoke failing_scan_env None fresh_state = Inr r
      \<and> current_step r = ERROR \<and> error r = None \<and> \<not> has_error r
      \<and> messages r = [HumanMessage ''find cable tenders'',
                       AIMessage ''Error: mock data unreadable'']"
  by (simp add: failing_scan_run fresh_fields has_error_def)

text \<open>
  The same run, and the assessment stage on the new session: the step becomes \<^verbatim>\<open>ERROR\<close>,
  and \<^verbatim>\<open>error\<close> is \<^verbatim>\<open>None\<close> as before.
\<close>

theorem stages_leave_error_unchanged_witness:
  "technical_agent_node reply_env fresh_state = Inr no_selection_delta
   \<and> current_step (apply_delta fresh_state no_selection_delta) = ERROR
   \<and> error (apply_delta fresh_state no_selection_delta) = error fresh_state
   \<and> (\<exists>r. ainvoke failing_scan_env None fresh_state = Inr r
         \<and> current_step r = ERROR \<and> error r = error fresh_state)
   \<and> error fresh_state = None"
proof -
  have n: "technical_agent_node reply_env fresh_state = Inr no_selection_delta"
    by (simp add: technical_agent_node_def no_selection_delta_def reply_env_def fresh_fields)
  have mn: "\<forall>s' d'. main_agent_node failing_scan_env s' = Inr d' \<longrightarrow> \<not> writes_error d'"
    by (auto simp add: failing_scan_env_def reply_env_def delegate_to_def writes_error_def)
  have pn: "\<forall>s' d'. pricing_agent_node failing_scan_env s' = Inr d' \<longrightarrow> \<not> writes_error d'"
    by (auto simp add: failing_scan_env_def reply_env_def delegate_to_def writes_error_def)
  from stages_leave_error_unchanged [where E = reply_env and s = fresh_state
      and d = no_selection_delta] n
  have 1: "error (apply_delta fresh_state no_selection_delta) = error fresh_state"
    by simp
  from stages_leave_error_unchanged [where E = failing_scan_env and checkpoint = None
      and input = fresh_state] mn pn failing_scan_run
  have 2: "error (apply_delta (apply_delta fresh_state [Next_node SALES_AGENT])
            [Messages [AIMessage ''Error: mock data unreadable''], Next_node NodeName_END,
             Current_step ERROR]) = error fresh_state"
    by blast
  from n 1 2 show ?thesis
    by (simp add: failing_scan_run no_selection_delta_def fresh_fields)
qed

section \<open>The assessment stage and its precondition\<close>







section \<open>The message log across a turn\<close>






section \<open>The outcomes of the discovery stage\<close>







section \<open>Clearing and reading a session\<close>

text \<open>
  C7, as the code has it. The session-clear endpoint removes the session from the
  memory manager's two dictionaries and from \<^verbatim>\<open>chat_sessions\<close>, so \<^verbatim>\<open>get_workflow_state\<close>
  reports that it does not exist. It does not touch the durable store or the graph's
  checkpointer: \<^verbatim>\<open>load_agent_state\<close> returns what it returned before. The second
  endpoint only removes the entry of \<^verbatim>\<open>chat_sessions\<close>.
\<close>

theorem clear_session_effect:
  "memory_cache (clear_session sys sid) sid = None
   \<and> last_sync (clear_session sys sid) sid = None
   \<and> chat_sessions (clear_session sys sid) sid = None
   \<and> fst (get_workflow_state (clear_session sys sid) sid) = Not_exists sid
   \<and> database (clear_session sys sid) = database sys
   \<and> checkpointer (clear_session sys sid) = checkpointer sys
   \<and> load_agent_state (clear_session sys sid) sid = load_agent_state sys sid
   \<and> chat_sessions (clear_session_2 sys sid) sid = None
   \<and> database (clear_session_2 sys sid) = database sys
   \<and> checkpointer (clear_session_2 sys sid) = checkpointer sys
   \<and> memory_cache (clear_session_2 sys sid) = memory_cache sys
   \<and> load_agent_state (clear_session_2 sys sid) sid = load_agent_state sys sid"
  by (simp add: clear_session_def clear_session_2_def clear_memory_def load_agent_state_def
      get_workflow_state_def Let_def)

text \<open>
  C7, as stated, fails: after the session is cleared, the load for the same session id
  still finds the stored state, and the checkpointer still holds it.
\<close>

theorem cleared_session_still_loads:
  "load_agent_state (clear_session sample_system ''s1'') ''s1'' = Some stored_state
   \<and> checkpointer (clear_session sample_system ''s1'') ''s1'' = Some stored_state
   \<and> load_agent_state (clear_session_2 sample_system ''s1'') ''s1'' = Some stored_state"
  by (simp add: clear_session_def clear_session_2_def clear_memory_def load_agent_state_def
      sample_system_def Let_def)

text \<open>
  C8. \<^verbatim>\<open>get_workflow_state\<close> leaves the process state as it found it, so a second call
  right after the first returns the same answer.
\<close>

theorem get_workflow_state_idempotent:
  "snd (get_workflow_state sys sid) = sys
   \<and> fst (get_workflow_state (snd (get_workflow_state sys sid)) sid) =
       fst (get_workflow_state sys sid)"
proof -
  have "snd (get_workflow_state sys sid) = sys"
    by (simp add: get_workflow_state_def split: option.splits)
  then show ?thesis by simp
qed

end
